theory Spec2Isabelle
  imports Complex_Main "HOL-Library.Word"
begin

section \<open>The CTHYB solver front end (c++/ctqmc.cpp)\<close>

text \<open>
  The file embeds the three member functions of class \<open>ctqmc\<close>: the constructor, \<open>solve\<close>
  and \<open>solve_parameters\<close>. Everything they call in the TRIQS library (Green's functions,
  operators, the Monte Carlo driver) is a parameter of the model, collected in the record
  \<open>triqs\<close>. Nothing is assumed about what those functions compute, so every theorem holds
  for whatever the library returns; a library call that throws instead of returning is
  outside the model. The only exception the code itself raises is the one of the
  constructor.
\<close>

subsection \<open>Scalars and errors\<close>

text \<open>
  A C++ \<open>int\<close> is a 32-bit two's complement word; \<open>sint\<close> reads its value and arithmetic
  wraps around. A \<open>double\<close> is only stored and passed on by this code, never computed with;
  it is a \<open>real\<close>.
\<close>

type_synonym c_int = "32 word"

text \<open>
  \<open>TRIQS_RUNTIME_ERROR << a << b << ...\<close> throws a \<open>triqs::runtime_error\<close> whose message is
  the sequence of the inserted pieces.
\<close>

datatype msg_part = Str string | Num c_int

datatype error = Runtime_error "msg_part list"

subsection \<open>Green's functions and the library\<close>

datatype statistic = Boson | Fermion

datatype mesh_kind = half_bins | full_bins

text \<open>
  A tail coefficient \<open>g.singularity()(k)\<close> is a complex matrix, read at \<open>(a1, a2)\<close>. The code
  reads it at the orbital indices themselves; what a read outside the matrix yields is the
  library's.
\<close>

type_synonym matrix = "c_int \<Rightarrow> c_int \<Rightarrow> complex"

text \<open>
  The right-hand sides of the lazy assignments \<open>g(iw_) << ...\<close>: expressions in the
  placeholder \<open>iw_\<close> and constant matrices.
\<close>

datatype clef_expr =
    Iw
  | Mat matrix
  | Plus clef_expr clef_expr
  | Times clef_expr clef_expr

text \<open>A block Green's function: the block names and the blocks, in the same order.\<close>

record 'a block_gf =
  names :: "string list"
  blocks :: "'a list"

definition make_block_gf :: "string list \<Rightarrow> 'a list \<Rightarrow> 'a block_gf" where
  "make_block_gf block_names bs = \<lparr>names = block_names, blocks = bs\<rparr>"

text \<open>
  \<open>gf_struct\<close> is a \<open>std::map<std::string, std::vector<int>>\<close>; the code only ever iterates
  over it, so it is the list of its entries in iteration order (ascending block name).
\<close>

type_synonym gf_struct_t = "(string \<times> c_int list) list"

text \<open>The fundamental operator set, as the sequence of its \<open>insert\<close> calls.\<close>

type_synonym fundamental_operator_set = "(string \<times> c_int) list"

subsection \<open>Run-time parameters\<close>

text \<open>The parameter object \<open>solve\<close> receives, with the fields \<open>solve_parameters\<close> declares.\<close>

record parameters =
  n_cycles :: c_int
  length_cycle :: c_int
  n_warmup_cycles :: c_int
  random_seed :: c_int
  random_name :: string
  max_time :: c_int
  verbosity :: c_int
  use_trace_estimator :: bool
  measure_g_tau :: bool
  measure_pert_order :: bool
  make_histograms :: bool

text \<open>
  The declaration object \<open>solve_parameters\<close> builds: each \<open>add_field\<close> appends a field with
  its name, its default (or \<open>no_default<T>\<close>) and its documentation.
\<close>

datatype param_value = Int_val c_int | Bool_val bool | String_val string

datatype param_type = Int_type | Bool_type | String_type

datatype param_default = no_default param_type | Default param_value

type_synonym parameters_t = "(string \<times> param_default \<times> string) list"

definition add_field :: "parameters_t \<Rightarrow> string \<Rightarrow> param_default \<Rightarrow> string \<Rightarrow> parameters_t" where
  "add_field pdef key d doc = pdef @ [(key, d, doc)]"

text \<open>\<open>world_rank\<close> is \<open>boost::mpi::communicator().rank()\<close>, the index of the worker.\<close>

definition solve_parameters :: "c_int \<Rightarrow> parameters_t" where
  "solve_parameters world_rank =
     (let pdef = [];
          pdef = add_field pdef ''n_cycles'' (no_default Int_type) ''Number of QMC cycles'';
          pdef = add_field pdef ''length_cycle'' (Default (Int_val 50))
                   ''Length of a single QMC cycle'';
          pdef = add_field pdef ''n_warmup_cycles'' (Default (Int_val 5000))
                   ''Number of cycles for thermalization'';
          pdef = add_field pdef ''random_seed'' (Default (Int_val (34788 + 928374 * world_rank)))
                   ''Seed for random number generator'';
          pdef = add_field pdef ''random_name'' (Default (String_val []))
                   ''Name of random number generator'';
          pdef = add_field pdef ''max_time'' (Default (Int_val (- 1)))
                   ''Maximum runtime in seconds, use -1 to set infinite'';
          pdef = add_field pdef ''verbosity''
                   (Default (Int_val (if world_rank = 0 then 3 else 0))) ''Verbosity level'';
          pdef = add_field pdef ''use_trace_estimator'' (Default (Bool_val False))
                   ''Calculate the full trace or use an estimate?'';
          pdef = add_field pdef ''measure_g_tau'' (Default (Bool_val True))
                   ''Whether to measure G(tau)'';
          pdef = add_field pdef ''measure_pert_order'' (Default (Bool_val False))
                   ''Whether to measure perturbation order'';
          pdef = add_field pdef ''make_histograms'' (Default (Bool_val False))
                   ''Make the analysis histograms of the trace computation''
      in pdef)"

text \<open>Reading a declared field: its default, if the field exists.\<close>

definition field_default :: "parameters_t \<Rightarrow> string \<Rightarrow> param_default option" where
  "field_default pdef key = map_option fst (map_of pdef key)"

definition field_names :: "parameters_t \<Rightarrow> string list" where
  "field_names pdef = map fst pdef"

text \<open>
  The runtime options the specification documents (section 6), under the names the source
  gives them.
\<close>

definition documented_options :: "string list" where
  "documented_options =
     [''n_cycles'', ''length_cycle'', ''n_warmup_cycles'', ''random_seed'', ''max_time'',
      ''measure_g_tau'', ''measure_pert_order'', ''use_trace_estimator'']"

subsection \<open>Operators, atomic state space, Monte Carlo data\<close>

text \<open>
  The class \<open>sorted_spaces\<close> is kept as the constructor call that made it: the member
  \<open>sosp\<close> is default-constructed by the constructor of \<open>ctqmc\<close> and assigned
  \<open>{h_loc, fops}\<close> or \<open>{h_loc, quantum_numbers, fops}\<close> by \<open>solve\<close>.
\<close>

datatype 'op sorted_spaces =
    Sorted_spaces_default
  | Sorted_spaces 'op fundamental_operator_set
  | Sorted_spaces_qn 'op "'op list" fundamental_operator_set

text \<open>
  An operator insertion of a configuration: imaginary time, inner orbital index, and whether
  it is a creation operator. A configuration holds one time-ordered sequence per block.
\<close>

record operator_insertion =
  ins_tau :: real
  ins_inner :: c_int
  ins_dagger :: bool

type_synonym configuration = "operator_insertion list list"

record ('t, 'op) qmc_data =
  data_beta :: real
  data_params :: parameters
  data_sosp :: "'op sorted_spaces"
  data_linindex :: "nat \<times> nat \<rightharpoonup> c_int"
  data_delta :: "'t block_gf"
  config :: configuration

text \<open>
  Modelled from the spec: the constructor of \<open>qmc_data\<close> (qmc_data.hpp is not among the
  sources). It keeps its five arguments, and "Configuration is created empty at the start of
  sampling": no block holds an operator insertion.
\<close>

definition qmc_data ::
  "real \<Rightarrow> parameters \<Rightarrow> 'op sorted_spaces \<Rightarrow> (nat \<times> nat \<rightharpoonup> c_int) \<Rightarrow> 't block_gf
     \<Rightarrow> ('t, 'op) qmc_data" where
  "qmc_data beta' params sosp' linindex delta =
     \<lparr>data_beta = beta', data_params = params, data_sosp = sosp', data_linindex = linindex,
      data_delta = delta, config = map (\<lambda>_. []) (blocks delta)\<rparr>"

text \<open>
  Moves and measures, as the constructor calls that make them. Each also takes a reference
  to the one \<open>data\<close> object of the run (and the moves one to the driver's random generator),
  which the driver record below holds once.
\<close>

datatype move =
    move_insert_c_cdag nat c_int bool
  | move_remove_c_cdag nat c_int

datatype 't measure =
    measure_g nat 't
  | measure_perturbation_hist nat string

text \<open>The driver \<open>mc_tools::mc_generic\<close>: built from the parameters, then filled by
  \<open>add_move\<close> and \<open>add_measure\<close>, each with a name.\<close>

record 't mc_generic =
  mc_params :: parameters
  moves :: "(move \<times> string) list"
  measures :: "('t measure \<times> string) list"

definition mc_generic :: "parameters \<Rightarrow> 't mc_generic" where
  "mc_generic params = \<lparr>mc_params = params, moves = [], measures = []\<rparr>"

definition add_move :: "move \<Rightarrow> string \<Rightarrow> 't mc_generic \<Rightarrow> 't mc_generic" where
  "add_move m name qmc = qmc\<lparr>moves := moves qmc @ [(m, name)]\<rparr>"

definition add_measure :: "'t measure \<Rightarrow> string \<Rightarrow> 't mc_generic \<Rightarrow> 't mc_generic" where
  "add_measure m name qmc = qmc\<lparr>measures := measures qmc @ [(m, name)]\<rparr>"

subsection \<open>The library\<close>

text \<open>
  The functions of TRIQS the code calls, as parameters. \<open>'g\<close> is \<open>gf<imfreq>\<close>, \<open>'t\<close> is
  \<open>gf<imtime>\<close>, \<open>'op\<close> is \<open>real_operator_t\<close>.
  \<^item> \<open>gf_imfreq beta stat n_iw shape\<close> and \<open>gf_imtime beta stat n_tau kind shape\<close> are the two
    \<open>gf\<close> constructors;
  \<^item> \<open>inverse_gf\<close> is \<open>triqs::gfs::inverse\<close>, \<open>minus_gf\<close> the difference of two functions,
    \<open>singularity g k\<close> the tail coefficient \<open>g.singularity()(k)\<close>;
  \<^item> \<open>clef_assign g e\<close> is \<open>g(iw_) << e\<close>: it fills \<open>g\<close>, on the mesh of \<open>g\<close>, from \<open>e\<close>;
  \<^item> \<open>inverse_fourier d g\<close> is \<open>d() = inverse_fourier(g)\<close>: the transform of \<open>g\<close> written
    into \<open>d\<close>, on the mesh of \<open>d\<close>;
  \<^item> \<open>data_shape d\<close> is \<open>d.data().shape()\<close>;
  \<^item> \<open>c_dag\<close>, \<open>c_op\<close> (the source's \<open>c\<close>), \<open>op_plus\<close>, \<open>op_times\<close> and \<open>scalar_times\<close>
    build operators;
  \<^item> \<open>fops_index fops i\<close> is \<open>fops[i]\<close>;
  \<^item> \<open>mc_start_collect data qmc sign t\<close> is \<open>qmc.start(sign, clock_callback(t))\<close> followed
    by \<open>qmc.collect_results(_comm)\<close>. The run writes through the views the measures hold:
    the function maps the blocks of \<open>G_tau\<close> before the run to the blocks after it.
\<close>

record ('g, 't, 'op) triqs =
  gf_imfreq :: "real \<Rightarrow> statistic \<Rightarrow> c_int \<Rightarrow> c_int \<times> c_int \<Rightarrow> 'g"
  gf_imtime :: "real \<Rightarrow> statistic \<Rightarrow> c_int \<Rightarrow> mesh_kind \<Rightarrow> c_int \<times> c_int \<Rightarrow> 't"
  inverse_gf :: "'g \<Rightarrow> 'g"
  minus_gf :: "'g \<Rightarrow> 'g \<Rightarrow> 'g"
  singularity :: "'g \<Rightarrow> int \<Rightarrow> matrix"
  clef_assign :: "'g \<Rightarrow> clef_expr \<Rightarrow> 'g"
  inverse_fourier :: "'t \<Rightarrow> 'g \<Rightarrow> 't"
  data_shape :: "'t \<Rightarrow> nat \<times> nat \<times> nat"
  c_dag :: "string \<Rightarrow> c_int \<Rightarrow> 'op"
  c_op :: "string \<Rightarrow> c_int \<Rightarrow> 'op"
  op_plus :: "'op \<Rightarrow> 'op \<Rightarrow> 'op"
  op_times :: "'op \<Rightarrow> 'op \<Rightarrow> 'op"
  scalar_times :: "real \<Rightarrow> 'op \<Rightarrow> 'op"
  fops_index :: "fundamental_operator_set \<Rightarrow> string \<times> c_int \<Rightarrow> c_int"
  mc_start_collect ::
    "('t, 'op) qmc_data \<Rightarrow> 't mc_generic \<Rightarrow> real \<Rightarrow> c_int \<Rightarrow> 't list \<Rightarrow> 't list"

subsection \<open>The solver object and its constructor\<close>

record ('g, 't, 'op) ctqmc_obj =
  beta :: real
  gf_struct :: gf_struct_t
  G0_iw :: "'g block_gf"
  G_tau :: "'t block_gf"
  Delta_tau :: "'t block_gf"
  sosp :: "'op sorted_spaces"

text \<open>Lines 45-51: one pass over \<open>gf_struct\<close>, four \<open>push_back\<close> per entry.\<close>

fun ctqmc_blocks ::
  "('g, 't, 'op) triqs \<Rightarrow> real \<Rightarrow> c_int \<Rightarrow> c_int \<Rightarrow> gf_struct_t
     \<Rightarrow> string list \<times> 'g list \<times> 't list \<times> 't list
     \<Rightarrow> string list \<times> 'g list \<times> 't list \<times> 't list" where
  "ctqmc_blocks L beta' n_iw n_tau [] acc = acc"
| "ctqmc_blocks L beta' n_iw n_tau (block # rest)
     (block_names, g0_iw_blocks, g_tau_blocks, delta_tau_blocks) =
     (let n = (word_of_nat (length (snd block)) :: c_int)
      in ctqmc_blocks L beta' n_iw n_tau rest
           (block_names @ [fst block],
            g0_iw_blocks @ [gf_imfreq L beta' Fermion n_iw (n, n)],
            g_tau_blocks @ [gf_imtime L beta' Fermion n_tau half_bins (n, n)],
            delta_tau_blocks @ [gf_imtime L beta' Fermion n_tau half_bins (n, n)]))"

definition ctqmc ::
  "('g, 't, 'op) triqs \<Rightarrow> real \<Rightarrow> gf_struct_t \<Rightarrow> c_int \<Rightarrow> c_int
     \<Rightarrow> error + ('g, 't, 'op) ctqmc_obj" where
  "ctqmc L beta' gf_struct' n_iw n_tau =
     (if n_tau \<le>s 2 * n_iw then
        Inl (Runtime_error
          [Str ''Must use as least twice as many tau points as Matsubara frequencies: n_iw = '',
           Num n_iw, Str '' but n_tau = '', Num n_tau, Str ''.''])
      else
        (case ctqmc_blocks L beta' n_iw n_tau gf_struct' ([], [], [], []) of
           (block_names, g0_iw_blocks, g_tau_blocks, delta_tau_blocks) \<Rightarrow>
             Inr \<lparr>beta = beta', gf_struct = gf_struct',
                  G0_iw = make_block_gf block_names g0_iw_blocks,
                  G_tau = make_block_gf block_names g_tau_blocks,
                  Delta_tau = make_block_gf block_names delta_tau_blocks,
                  sosp = Sorted_spaces_default\<rparr>))"

text \<open>
  What the constructor establishes, and filling the blocks of the Weiss field preserves:
  every block function has one block and one name per entry of \<open>gf_struct\<close>. The loops of
  \<open>solve\<close> index the block functions by the position of the entry, unchecked.
\<close>

definition wf_solver :: "('g, 't, 'op) ctqmc_obj \<Rightarrow> bool" where
  "wf_solver self \<longleftrightarrow>
     length (blocks (G0_iw self)) = length (gf_struct self) \<and>
     length (names (G0_iw self)) = length (gf_struct self) \<and>
     length (blocks (G_tau self)) = length (gf_struct self) \<and>
     length (names (G_tau self)) = length (gf_struct self) \<and>
     length (blocks (Delta_tau self)) = length (gf_struct self) \<and>
     length (names (Delta_tau self)) = length (gf_struct self)"

subsection \<open>solve\<close>

text \<open>Lines 76-88: the basis of operators and the linear index of every orbital.\<close>

fun solve_fops_inner ::
  "('g, 't, 'op) triqs \<Rightarrow> string \<Rightarrow> nat \<Rightarrow> c_int list \<Rightarrow> nat
     \<Rightarrow> fundamental_operator_set \<times> (nat \<times> nat \<rightharpoonup> c_int)
     \<Rightarrow> fundamental_operator_set \<times> (nat \<times> nat \<rightharpoonup> c_int)" where
  "solve_fops_inner L bn block_index [] inner_index st = st"
| "solve_fops_inner L bn block_index (a # rest) inner_index (fops, linindex) =
     (let fops = fops @ [(bn, a)];
          linindex = linindex((block_index, inner_index) \<mapsto> fops_index L fops (bn, a))
      in solve_fops_inner L bn block_index rest (Suc inner_index) (fops, linindex))"

fun solve_fops ::
  "('g, 't, 'op) triqs \<Rightarrow> gf_struct_t \<Rightarrow> nat
     \<Rightarrow> fundamental_operator_set \<times> (nat \<times> nat \<rightharpoonup> c_int)
     \<Rightarrow> fundamental_operator_set \<times> (nat \<times> nat \<rightharpoonup> c_int)" where
  "solve_fops L [] block_index st = st"
| "solve_fops L (b # rest) block_index st =
     solve_fops L rest (Suc block_index) (solve_fops_inner L (fst b) block_index (snd b) 0 st)"

text \<open>Line 99: the term added to \<open>h_loc\<close> for the block function \<open>g\<close> named \<open>bn\<close>.\<close>

definition quadratic_term ::
  "('g, 't, 'op) triqs \<Rightarrow> 'g \<Rightarrow> string \<Rightarrow> c_int \<Rightarrow> c_int \<Rightarrow> 'op" where
  "quadratic_term L g bn a1 a2 =
     op_times L (scalar_times L (Re (singularity L g 2 a1 a2)) (c_dag L bn a1)) (c_op L bn a2)"

text \<open>Lines 95-103: the three nested loops, with the block counter \<open>b\<close>.\<close>

fun solve_h_loc ::
  "('g, 't, 'op) triqs \<Rightarrow> 'g list \<Rightarrow> gf_struct_t \<Rightarrow> nat \<Rightarrow> 'op \<Rightarrow> 'op" where
  "solve_h_loc L g0_iw_blocks [] b h_loc = h_loc"
| "solve_h_loc L g0_iw_blocks (bl # rest) b h_loc =
     solve_h_loc L g0_iw_blocks rest (Suc b)
       (fold (\<lambda>a1. fold (\<lambda>a2 h. op_plus L h (quadratic_term L (g0_iw_blocks ! b) (fst bl) a1 a2))
                       (snd bl))
          (snd bl) h_loc)"

text \<open>
  Lines 109-114: the body of the loop over the blocks. The state is the local \<open>Delta_iw\<close>
  and the blocks of the members \<open>Delta_tau\<close> and \<open>G0_iw\<close>; \<open>G0_iw_inv\<close> is only read.
\<close>

definition solve_delta_step ::
  "('g, 't, 'op) triqs \<Rightarrow> 'g list \<Rightarrow> nat \<Rightarrow> 'g list \<times> 't list \<times> 'g list
     \<Rightarrow> 'g list \<times> 't list \<times> 'g list" where
  "solve_delta_step L G0_iw_inv b st =
     (case st of (Delta_iw, delta_tau_blocks, g0_iw_blocks) \<Rightarrow>
      let Delta_iw = Delta_iw[b := clef_assign L (Delta_iw ! b)
                       (Plus (Times (Mat (singularity L (G0_iw_inv ! b) (- 1))) Iw)
                             (Mat (singularity L (G0_iw_inv ! b) 0)))];
          Delta_iw = Delta_iw[b := minus_gf L (Delta_iw ! b) (G0_iw_inv ! b)];
          delta_tau_blocks =
            delta_tau_blocks[b := inverse_fourier L (delta_tau_blocks ! b) (Delta_iw ! b)];
          g0_iw_blocks = g0_iw_blocks[b := clef_assign L (g0_iw_blocks ! b)
                           (Plus Iw (Mat (singularity L (G0_iw_inv ! b) 0)))];
          g0_iw_blocks = g0_iw_blocks[b := minus_gf L (g0_iw_blocks ! b) (Delta_iw ! b)];
          g0_iw_blocks = g0_iw_blocks[b := inverse_gf L (g0_iw_blocks ! b)]
      in (Delta_iw, delta_tau_blocks, g0_iw_blocks))"

text \<open>Lines 106-116: the loop, one step per entry of \<open>gf_struct\<close>, with the counter \<open>b\<close>.\<close>

fun solve_delta ::
  "('g, 't, 'op) triqs \<Rightarrow> 'g list \<Rightarrow> gf_struct_t \<Rightarrow> nat \<Rightarrow> 'g list \<times> 't list \<times> 'g list
     \<Rightarrow> 'g list \<times> 't list \<times> 'g list" where
  "solve_delta L G0_iw_inv [] b st = st"
| "solve_delta L G0_iw_inv (bl # rest) b st =
     solve_delta L G0_iw_inv rest (Suc b) (solve_delta_step L G0_iw_inv b st)"

text \<open>Lines 153-158: an insert and a remove move per block of \<open>Delta_tau\<close>.\<close>

definition solve_moves ::
  "('g, 't, 'op) triqs \<Rightarrow> 't block_gf \<Rightarrow> 't mc_generic \<Rightarrow> 't mc_generic" where
  "solve_moves L delta qmc0 =
     fold (\<lambda>block qmc.
             let block_size = (word_of_nat (fst (snd (data_shape L (blocks delta ! block)))) :: c_int);
                 qmc = add_move (move_insert_c_cdag block block_size False)
                         (''Insert Delta_'' @ names delta ! block) qmc;
                 qmc = add_move (move_remove_c_cdag block block_size)
                         (''Remove Delta_'' @ names delta ! block) qmc
             in qmc)
       [0..<length (names delta)] qmc0"

text \<open>Lines 162-165 and 168-171: the two measurement loops over the blocks of \<open>G_tau\<close>.\<close>

definition solve_measure_g :: "'t block_gf \<Rightarrow> 't mc_generic \<Rightarrow> 't mc_generic" where
  "solve_measure_g g qmc0 =
     fold (\<lambda>block. add_measure (measure_g block (blocks g ! block))
                      (''G measure ('' @ names g ! block @ '')''))
       [0..<length (names g)] qmc0"

definition solve_measure_pert :: "'t block_gf \<Rightarrow> 't mc_generic \<Rightarrow> 't mc_generic" where
  "solve_measure_pert g qmc0 =
     fold (\<lambda>block. add_measure
                      (measure_perturbation_hist block
                         (''histo_pert_order_'' @ names g ! block @ ''.dat''))
                      (''Perturbation order ('' @ names g ! block @ '')''))
       [0..<length (names g)] qmc0"

text \<open>
  What \<open>solve\<close> leaves behind: the solver object, and the run it started (the data, the
  driver as it was configured, and the two arguments of \<open>qmc.start\<close>).
\<close>

record ('g, 't, 'op) solve_result =
  run_solver :: "('g, 't, 'op) ctqmc_obj"
  run_data :: "('t, 'op) qmc_data"
  run_qmc :: "'t mc_generic"
  run_sign :: real
  run_max_time :: c_int

definition solve ::
  "('g, 't, 'op) triqs \<Rightarrow> ('g, 't, 'op) ctqmc_obj \<Rightarrow> 'op \<Rightarrow> parameters \<Rightarrow> 'op list \<Rightarrow> bool
     \<Rightarrow> ('g, 't, 'op) solve_result" where
  "solve L self h_loc params quantum_numbers use_quantum_numbers =
     (case solve_fops L (gf_struct self) 0 ([], Map.empty) of (fops, linindex) \<Rightarrow>
      let G0_iw_inv = map (inverse_gf L) (blocks (G0_iw self));
          Delta_iw = G0_iw_inv;
          h_loc = solve_h_loc L (blocks (G0_iw self)) (gf_struct self) 0 h_loc
      in
      case solve_delta L G0_iw_inv (gf_struct self) 0
             (Delta_iw, blocks (Delta_tau self), blocks (G0_iw self)) of
        (Delta_iw, delta_tau_blocks, g0_iw_blocks) \<Rightarrow>
      let self = self\<lparr>Delta_tau := (Delta_tau self)\<lparr>blocks := delta_tau_blocks\<rparr>,
                      G0_iw := (G0_iw self)\<lparr>blocks := g0_iw_blocks\<rparr>\<rparr>;
          self = self\<lparr>sosp := (if use_quantum_numbers
                                then Sorted_spaces_qn h_loc quantum_numbers fops
                                else Sorted_spaces h_loc fops)\<rparr>;
          data = qmc_data (beta self) params (sosp self) linindex (Delta_tau self);
          qmc = mc_generic params;
          qmc = solve_moves L (Delta_tau self) qmc;
          qmc = (if measure_g_tau params then solve_measure_g (G_tau self) qmc else qmc);
          qmc = (if measure_pert_order params then solve_measure_pert (G_tau self) qmc else qmc);
          g_tau_blocks = mc_start_collect L data qmc 1 (max_time params) (blocks (G_tau self))
      in \<lparr>run_solver = self\<lparr>G_tau := (G_tau self)\<lparr>blocks := g_tau_blocks\<rparr>\<rparr>,
          run_data = data, run_qmc = qmc, run_sign = 1, run_max_time = max_time params\<rparr>)"

subsection \<open>Reading the result of solve\<close>

text \<open>
  The locals of \<open>solve\<close> the claims speak of: \<open>G0_iw_inv\<close> (line 91), and the state after the
  loop of lines 106-116, that is the final \<open>Delta_iw\<close> and the new blocks of \<open>Delta_tau\<close> and
  \<open>G0_iw\<close>. \<open>Delta_iw\<close> starts as a copy of \<open>G0_iw_inv\<close> (line 92).
\<close>

definition solve_G0_iw_inv :: "('g, 't, 'op) triqs \<Rightarrow> ('g, 't, 'op) ctqmc_obj \<Rightarrow> 'g list" where
  "solve_G0_iw_inv L self = map (inverse_gf L) (blocks (G0_iw self))"

definition solve_hybridization ::
  "('g, 't, 'op) triqs \<Rightarrow> ('g, 't, 'op) ctqmc_obj \<Rightarrow> 'g list \<times> 't list \<times> 'g list" where
  "solve_hybridization L self =
     solve_delta L (solve_G0_iw_inv L self) (gf_struct self) 0
       (solve_G0_iw_inv L self, blocks (Delta_tau self), blocks (G0_iw self))"

text \<open>
  What a caller does between construction and \<open>solve\<close>: it fills the blocks of the Weiss
  field. The names and the number of blocks stay.
\<close>

definition assign_G0_iw ::
  "'g list \<Rightarrow> ('g, 't, 'op) ctqmc_obj \<Rightarrow> ('g, 't, 'op) ctqmc_obj" where
  "assign_G0_iw g0 self = self\<lparr>G0_iw := (G0_iw self)\<lparr>blocks := g0\<rparr>\<rparr>"

text \<open>
  The quadratic terms as the specification words them: for every block (at position \<open>b\<close>,
  named \<open>bn\<close>) and every ordered pair \<open>(a1, a2)\<close> of its orbital indices, the real part of
  the tail coefficient of order 2 of \<open>G0_iw[b]\<close> at \<open>(a1, a2)\<close>, times
  \<open>c_dag(bn, a1) * c(bn, a2)\<close>.
\<close>

definition tail_quadratic_terms ::
  "('g, 't, 'op) triqs \<Rightarrow> 'g list \<Rightarrow> gf_struct_t \<Rightarrow> 'op list" where
  "tail_quadratic_terms L g0_iw_blocks gs =
     [op_times L (scalar_times L (Re (singularity L (g0_iw_blocks ! b) 2 a1 a2)) (c_dag L bn a1))
        (c_op L bn a2).
      (b, (bn, orbitals)) \<leftarrow> enumerate 0 gs, a1 \<leftarrow> orbitals, a2 \<leftarrow> orbitals]"

text \<open>The registered moves and measures of one kind that act on one block.\<close>

definition insert_moves_of :: "nat \<Rightarrow> (move \<times> string) list \<Rightarrow> (move \<times> string) list" where
  "insert_moves_of block ms =
     filter (\<lambda>m. case fst m of move_insert_c_cdag b _ _ \<Rightarrow> b = block
                              | move_remove_c_cdag _ _ \<Rightarrow> False) ms"

definition remove_moves_of :: "nat \<Rightarrow> (move \<times> string) list \<Rightarrow> (move \<times> string) list" where
  "remove_moves_of block ms =
     filter (\<lambda>m. case fst m of move_insert_c_cdag _ _ _ \<Rightarrow> False
                              | move_remove_c_cdag b _ \<Rightarrow> b = block) ms"

definition g_measures_of ::
  "nat \<Rightarrow> ('t measure \<times> string) list \<Rightarrow> ('t measure \<times> string) list" where
  "g_measures_of block ms =
     filter (\<lambda>m. case fst m of measure_g b _ \<Rightarrow> b = block
                              | measure_perturbation_hist _ _ \<Rightarrow> False) ms"

definition pert_measures_of ::
  "nat \<Rightarrow> ('t measure \<times> string) list \<Rightarrow> ('t measure \<times> string) list" where
  "pert_measures_of block ms =
     filter (\<lambda>m. case fst m of measure_g _ _ \<Rightarrow> False
                              | measure_perturbation_hist b _ \<Rightarrow> b = block) ms"

subsection \<open>A symbolic instance of the library\<close>

text \<open>
  To run the model on concrete inputs, the library is instantiated with terms: every library
  call builds the term that names it, so two results are equal only if the same calls made
  them. The tail coefficient of order \<open>k\<close> is the matrix with \<open>k\<close> in every entry. A block of
  \<open>G_tau\<close> that a run has measured into records the sign, the time budget and the
  configuration the run was started with.
\<close>

datatype sym_gf =
    Sym_imfreq real statistic c_int "c_int \<times> c_int"
  | Sym_weiss string
  | Sym_inverse sym_gf
  | Sym_minus sym_gf sym_gf
  | Sym_assign sym_gf clef_expr

datatype 'g sym_gt =
    Sym_imtime real statistic c_int mesh_kind "c_int \<times> c_int"
  | Sym_inverse_fourier "'g sym_gt" 'g
  | Sym_measured real c_int configuration "'g sym_gt"

datatype sym_op =
    Sym_h
  | Sym_c_dag string c_int
  | Sym_c string c_int
  | Sym_plus sym_op sym_op
  | Sym_times sym_op sym_op
  | Sym_scalar real sym_op

primrec sym_shape :: "'g sym_gt \<Rightarrow> nat \<times> nat \<times> nat" where
  "sym_shape (Sym_imtime b s n k sh) = (unat n, unat (fst sh), unat (snd sh))"
| "sym_shape (Sym_inverse_fourier d g) = sym_shape d"
| "sym_shape (Sym_measured sign t c d) = sym_shape d"

definition sym_fops_index :: "fundamental_operator_set \<Rightarrow> string \<times> c_int \<Rightarrow> c_int" where
  "sym_fops_index fops i = word_of_nat (length (takeWhile (\<lambda>j. j \<noteq> i) fops))"

definition sym_mc_start_collect ::
  "('g sym_gt, 'op) qmc_data \<Rightarrow> 'g sym_gt mc_generic \<Rightarrow> real \<Rightarrow> c_int \<Rightarrow> 'g sym_gt list
     \<Rightarrow> 'g sym_gt list" where
  "sym_mc_start_collect data qmc sign t g_tau_blocks =
     map (\<lambda>(block, g). if g_measures_of block (measures qmc) = [] then g
                         else Sym_measured sign t (config data) g)
       (enumerate 0 g_tau_blocks)"

definition sym_triqs :: "(sym_gf, sym_gf sym_gt, sym_op) triqs" where
  "sym_triqs =
     \<lparr>gf_imfreq = Sym_imfreq, gf_imtime = Sym_imtime, inverse_gf = Sym_inverse,
      minus_gf = Sym_minus, singularity = (\<lambda>g k a1 a2. of_int k), clef_assign = Sym_assign,
      inverse_fourier = Sym_inverse_fourier, data_shape = sym_shape,
      c_dag = Sym_c_dag, c_op = Sym_c, op_plus = Sym_plus, op_times = Sym_times,
      scalar_times = Sym_scalar, fops_index = sym_fops_index,
      mc_start_collect = sym_mc_start_collect\<rparr>"

text \<open>
  The running example: two one-orbital blocks at \<open>beta = 10\<close> with \<open>n_iw = 50\<close> and
  \<open>n_tau = 200\<close>, the Weiss field filled in, both measurements switched on.
\<close>

definition example_gf_struct :: gf_struct_t where
  "example_gf_struct = [(''down'', [0]), (''up'', [0])]"

definition example_solver :: "(sym_gf, sym_gf sym_gt, sym_op) ctqmc_obj" where
  "example_solver =
     \<lparr>beta = 10, gf_struct = example_gf_struct,
      G0_iw = make_block_gf [''down'', ''up''] [Sym_weiss ''down'', Sym_weiss ''up''],
      G_tau = make_block_gf [''down'', ''up'']
                [Sym_imtime 10 Fermion 200 half_bins (1, 1),
                 Sym_imtime 10 Fermion 200 half_bins (1, 1)],
      Delta_tau = make_block_gf [''down'', ''up'']
                [Sym_imtime 10 Fermion 200 half_bins (1, 1),
                 Sym_imtime 10 Fermion 200 half_bins (1, 1)],
      sosp = Sorted_spaces_default\<rparr>"

definition example_params :: parameters where
  "example_params =
     \<lparr>n_cycles = 100000, length_cycle = 50, n_warmup_cycles = 10000, random_seed = 34788,
      random_name = [], max_time = - 1, verbosity = 3, use_trace_estimator = False,
      measure_g_tau = True, measure_pert_order = True, make_histograms = False\<rparr>"

subsection \<open>An arithmetic instance of the library\<close>

text \<open>
  A second instance computes: a \<open>gf<imfreq>\<close> with a 1x1 target is its Matsubara frequencies
  \<open>i*omega_n\<close>, its value at each of them, and the known coefficients of its high-frequency
  tail, from order \<open>-1\<close> upwards (\<open>g(z) ~ t(-1)*z + t(0) + t(1)/z + t(2)/z^2 + ...\<close>). The
  arithmetic is that of the complex numbers, exact where the library rounds. The imaginary
  time side, the operators and the run stay symbolic.
\<close>

record agf =
  agf_mesh :: "complex list"
  agf_data :: "complex list"
  agf_tail :: "complex list"

definition arith_imfreq :: "real \<Rightarrow> statistic \<Rightarrow> c_int \<Rightarrow> c_int \<times> c_int \<Rightarrow> agf" where
  "arith_imfreq beta' stat n_iw shape =
     \<lparr>agf_mesh = map (\<lambda>n. \<i> * of_real ((2 * real n + (if stat = Fermion then 1 else 0)) * pi / beta'))
                   [0..<unat n_iw],
      agf_data = replicate (unat n_iw) 0,
      agf_tail = [0, 0, 0, 0]\<rparr>"

text \<open>
  The reciprocal of a power series \<open>a(0) + a(1)*u + ...\<close> with \<open>a(0) \<noteq> 0\<close>, to as many terms
  as are known of it: \<open>b(0) = 1/a(0)\<close> and
  \<open>b(n) = - (a(1)*b(n-1) + ... + a(n)*b(0)) / a(0)\<close>.
\<close>

fun ps_inverse_acc :: "complex list \<Rightarrow> nat \<Rightarrow> complex list \<Rightarrow> complex list" where
  "ps_inverse_acc a 0 b = b"
| "ps_inverse_acc a (Suc m) b =
     ps_inverse_acc a m
       (b @ [- (\<Sum>j\<leftarrow>[1..<Suc (length b)]. a ! j * b ! (length b - j)) / hd a])"

definition ps_inverse :: "complex list \<Rightarrow> complex list" where
  "ps_inverse a = (case a of [] \<Rightarrow> [] | a0 # rest \<Rightarrow> ps_inverse_acc a (length rest) [1 / a0])"

text \<open>
  The tail of \<open>1/g\<close>: if the tail of \<open>g\<close> begins at order \<open>n0 - 1\<close>, that of \<open>1/g\<close> begins at
  order \<open>1 - n0\<close>. A tail that would begin below order \<open>-1\<close>, or the reciprocal of a tail
  with no non-zero coefficient, has no known coefficient.
\<close>

definition tail_inverse :: "complex list \<Rightarrow> complex list" where
  "tail_inverse t =
     (let n0 = length (takeWhile (\<lambda>x. x = 0) t)
      in if n0 \<le> 2 \<and> n0 < length t then replicate (2 - n0) 0 @ ps_inverse (drop n0 t)
         else [])"

text \<open>
  The product of two tails: the coefficient of order \<open>k - 1\<close> (at position \<open>k\<close>) collects
  the products of the coefficients at positions \<open>i\<close> and \<open>k + 1 - i\<close>.
\<close>

definition tail_times :: "complex list \<Rightarrow> complex list \<Rightarrow> complex list" where
  "tail_times a b =
     map (\<lambda>k. \<Sum>i\<leftarrow>[0..<Suc (Suc k)]. a ! i * b ! (Suc k - i))
       [0..<min (length a) (length b) - 1]"

text \<open>An expression in \<open>iw_\<close>, at a frequency \<open>z\<close>, and its tail.\<close>

primrec clef_eval :: "clef_expr \<Rightarrow> complex \<Rightarrow> complex" where
  "clef_eval Iw z = z"
| "clef_eval (Mat m) z = m 0 0"
| "clef_eval (Plus a b) z = clef_eval a z + clef_eval b z"
| "clef_eval (Times a b) z = clef_eval a z * clef_eval b z"

primrec clef_tail :: "clef_expr \<Rightarrow> complex list" where
  "clef_tail Iw = [1, 0, 0, 0]"
| "clef_tail (Mat m) = [0, m 0 0, 0, 0]"
| "clef_tail (Plus a b) = map2 (+) (clef_tail a) (clef_tail b)"
| "clef_tail (Times a b) = tail_times (clef_tail a) (clef_tail b)"

definition arith_inverse :: "agf \<Rightarrow> agf" where
  "arith_inverse g =
     g\<lparr>agf_data := map inverse (agf_data g), agf_tail := tail_inverse (agf_tail g)\<rparr>"

definition arith_minus :: "agf \<Rightarrow> agf \<Rightarrow> agf" where
  "arith_minus g h =
     g\<lparr>agf_data := map2 (-) (agf_data g) (agf_data h),
       agf_tail := map2 (-) (agf_tail g) (agf_tail h)\<rparr>"

definition arith_singularity :: "agf \<Rightarrow> int \<Rightarrow> matrix" where
  "arith_singularity g k =
     (\<lambda>a1 a2. if a1 = 0 \<and> a2 = 0 \<and> - 1 \<le> k \<and> nat (k + 1) < length (agf_tail g)
               then agf_tail g ! nat (k + 1) else 0)"

definition arith_assign :: "agf \<Rightarrow> clef_expr \<Rightarrow> agf" where
  "arith_assign g e =
     g\<lparr>agf_data := map (clef_eval e) (agf_mesh g), agf_tail := clef_tail e\<rparr>"

definition arith_triqs :: "(agf, agf sym_gt, sym_op) triqs" where
  "arith_triqs =
     \<lparr>gf_imfreq = arith_imfreq, gf_imtime = Sym_imtime, inverse_gf = arith_inverse,
      minus_gf = arith_minus, singularity = arith_singularity, clef_assign = arith_assign,
      inverse_fourier = Sym_inverse_fourier, data_shape = sym_shape,
      c_dag = Sym_c_dag, c_op = Sym_c, op_plus = Sym_plus, op_times = Sym_times,
      scalar_times = Sym_scalar, fops_index = sym_fops_index,
      mc_start_collect = sym_mc_start_collect\<rparr>"

text \<open>
  A normalised Weiss field: one orbital at the level \<open>1/2\<close> with no bath,
  \<open>G0(i*omega) = 1 / (i*omega - 1/2)\<close>, at \<open>beta = 10\<close> on the first two Matsubara frequencies.
  Its tail is \<open>1/z + (1/2)/z^2\<close>, so that of its inverse begins with the coefficient 1.
\<close>

definition arith_weiss :: agf where
  "arith_weiss =
     \<lparr>agf_mesh = [\<i> * of_real (pi / 10), \<i> * of_real (3 * pi / 10)],
      agf_data = [inverse (\<i> * of_real (pi / 10) - 1 / 2),
                  inverse (\<i> * of_real (3 * pi / 10) - 1 / 2)],
      agf_tail = [0, 0, 1, 1 / 2]\<rparr>"

definition arith_solver :: "(agf, agf sym_gt, sym_op) ctqmc_obj" where
  "arith_solver =
     \<lparr>beta = 10, gf_struct = [(''up'', [0])],
      G0_iw = make_block_gf [''up''] [arith_weiss],
      G_tau = make_block_gf [''up''] [Sym_imtime 10 Fermion 5 half_bins (1, 1)],
      Delta_tau = make_block_gf [''up''] [Sym_imtime 10 Fermion 5 half_bins (1, 1)],
      sosp = Sorted_spaces_default\<rparr>"

section \<open>Properties\<close>

subsection \<open>The constructor\<close>

lemma ctqmc_blocks_eq:
  "ctqmc_blocks L b n_iw n_tau gs (ns, g0, gt, dt) =
     (ns @ map fst gs,
      g0 @ map (\<lambda>block. gf_imfreq L b Fermion n_iw
                  (word_of_nat (length (snd block)), word_of_nat (length (snd block)))) gs,
      gt @ map (\<lambda>block. gf_imtime L b Fermion n_tau half_bins
                  (word_of_nat (length (snd block)), word_of_nat (length (snd block)))) gs,
      dt @ map (\<lambda>block. gf_imtime L b Fermion n_tau half_bins
                  (word_of_nat (length (snd block)), word_of_nat (length (snd block)))) gs)"
  by (induction gs arbitrary: ns g0 gt dt) (simp_all add: Let_def)

lemma ctqmc_Inr:
  "ctqmc L b gs n_iw n_tau = Inr self \<Longrightarrow>
     \<not> n_tau \<le>s 2 * n_iw \<and>
     self = \<lparr>beta = b, gf_struct = gs,
       G0_iw = make_block_gf (map fst gs) (map (\<lambda>block. gf_imfreq L b Fermion n_iw
                  (word_of_nat (length (snd block)), word_of_nat (length (snd block)))) gs),
       G_tau = make_block_gf (map fst gs) (map (\<lambda>block. gf_imtime L b Fermion n_tau half_bins
                  (word_of_nat (length (snd block)), word_of_nat (length (snd block)))) gs),
       Delta_tau = make_block_gf (map fst gs) (map (\<lambda>block. gf_imtime L b Fermion n_tau half_bins
                  (word_of_nat (length (snd block)), word_of_nat (length (snd block)))) gs),
       sosp = Sorted_spaces_default\<rparr>"
  by (auto simp: ctqmc_def ctqmc_blocks_eq split: if_splits)

text \<open>The constructor throws exactly when \<open>n_tau <= 2*n_iw\<close>, in 32-bit signed arithmetic.\<close>

lemma ctqmc_error_iff:
  "(\<exists>e. ctqmc L b gs n_iw n_tau = Inl e) \<longleftrightarrow> n_tau \<le>s 2 * n_iw"
  by (auto simp: ctqmc_def ctqmc_blocks_eq)

lemma ctqmc_wf: "ctqmc L b gs n_iw n_tau = Inr self \<Longrightarrow> wf_solver self"
  by (drule ctqmc_Inr) (simp add: wf_solver_def make_block_gf_def)

text \<open>
  C1. The claim: the constructor rejects the setup if and only if \<open>n_tau < 2*n_iw\<close>, and
  succeeds whenever \<open>n_tau >= 2*n_iw\<close>. The code tests \<open>n_tau <= 2*n_iw\<close>: with exactly
  twice as many tau points as Matsubara frequencies (\<open>n_iw = 50\<close>, \<open>n_tau = 100\<close>) it throws,
  for every inverse temperature and block structure, although its own message asks for
  "at least twice as many".
\<close>

theorem ctqmc_rejects_twice_as_many:
  "ctqmc L b gs 50 100 =
     Inl (Runtime_error
       [Str ''Must use as least twice as many tau points as Matsubara frequencies: n_iw = '',
        Num 50, Str '' but n_tau = '', Num 100, Str ''.''])"
  by (simp add: ctqmc_def word_sle_eq)

subsection \<open>The declared parameters\<close>

lemma solve_parameters_list:
  "solve_parameters r =
     [(''n_cycles'', no_default Int_type, ''Number of QMC cycles''),
      (''length_cycle'', Default (Int_val 50), ''Length of a single QMC cycle''),
      (''n_warmup_cycles'', Default (Int_val 5000), ''Number of cycles for thermalization''),
      (''random_seed'', Default (Int_val (34788 + 928374 * r)),
         ''Seed for random number generator''),
      (''random_name'', Default (String_val []), ''Name of random number generator''),
      (''max_time'', Default (Int_val (- 1)),
         ''Maximum runtime in seconds, use -1 to set infinite''),
      (''verbosity'', Default (Int_val (if r = 0 then 3 else 0)), ''Verbosity level''),
      (''use_trace_estimator'', Default (Bool_val False),
         ''Calculate the full trace or use an estimate?''),
      (''measure_g_tau'', Default (Bool_val True), ''Whether to measure G(tau)''),
      (''measure_pert_order'', Default (Bool_val False),
         ''Whether to measure perturbation order''),
      (''make_histograms'', Default (Bool_val False),
         ''Make the analysis histograms of the trace computation'')]"
  by (simp add: solve_parameters_def add_field_def)

text \<open>
  C6, as stated: \<open>solve_parameters\<close> recognizes exactly the eight documented options. It
  does not: \<open>verbosity\<close> is a declared field and is none of the eight.
\<close>

theorem solve_parameters_undocumented_option:
  "''verbosity'' \<in> set (field_names (solve_parameters 0)) \<and>
   ''verbosity'' \<notin> set documented_options"
  unfolding solve_parameters_list field_names_def documented_options_def
  by simp

text \<open>
  C6, amended: the fields \<open>solve_parameters\<close> declares are the eight documented options and
  three more (\<open>random_name\<close>, \<open>verbosity\<close>, \<open>make_histograms\<close>), each declared once.
  \<open>n_cycles\<close> has no default; the defaults of the others are \<open>length_cycle = 50\<close>,
  \<open>n_warmup_cycles = 5000\<close>, \<open>random_seed = 34788 + 928374 * rank\<close>, \<open>max_time = -1\<close>,
  \<open>measure_g_tau = true\<close>, \<open>measure_pert_order = false\<close>, \<open>use_trace_estimator = false\<close>,
  \<open>random_name = ""\<close>, \<open>verbosity = 3\<close> on rank 0 and \<open>0\<close> elsewhere,
  \<open>make_histograms = false\<close>.
\<close>

theorem solve_parameters_options:
  "set (field_names (solve_parameters r)) =
     set documented_options \<union> {''random_name'', ''verbosity'', ''make_histograms''} \<and>
   distinct (field_names (solve_parameters r)) \<and>
   field_default (solve_parameters r) ''n_cycles'' = Some (no_default Int_type) \<and>
   field_default (solve_parameters r) ''length_cycle'' = Some (Default (Int_val 50)) \<and>
   field_default (solve_parameters r) ''n_warmup_cycles'' = Some (Default (Int_val 5000)) \<and>
   field_default (solve_parameters r) ''random_seed'' =
     Some (Default (Int_val (34788 + 928374 * r))) \<and>
   field_default (solve_parameters r) ''max_time'' = Some (Default (Int_val (- 1))) \<and>
   field_default (solve_parameters r) ''measure_g_tau'' = Some (Default (Bool_val True)) \<and>
   field_default (solve_parameters r) ''measure_pert_order'' = Some (Default (Bool_val False)) \<and>
   field_default (solve_parameters r) ''use_trace_estimator'' = Some (Default (Bool_val False)) \<and>
   field_default (solve_parameters r) ''random_name'' = Some (Default (String_val [])) \<and>
   field_default (solve_parameters r) ''verbosity'' =
     Some (Default (Int_val (if r = 0 then 3 else 0))) \<and>
   field_default (solve_parameters r) ''make_histograms'' = Some (Default (Bool_val False))"
  unfolding solve_parameters_list field_names_def field_default_def documented_options_def
  by (simp add: insert_commute)

subsection \<open>The default seed\<close>

lemma nonneg_uint: "0 \<le>s (r :: c_int) \<Longrightarrow> uint r = sint r \<and> uint r < 2 ^ 31"
proof -
  assume "0 \<le>s r"
  then have nn: "0 \<le> sint r" by (simp add: word_sle_eq)
  have lt: "sint r < 2 ^ 31" using sint_lt [of r] by simp
  have "uint r = take_bit 32 (sint r)" using uint_sint [of r] by simp
  also have "\<dots> = sint r" using nn lt by (simp add: take_bit_int_eq_self)
  finally show ?thesis using lt by simp
qed

text \<open>
  \<open>928374 = 2 * 464187\<close> and \<open>464187\<close> is odd, with inverse \<open>3338861555\<close> modulo \<open>2^32\<close>:
  multiplying by \<open>928374\<close> loses only the top bit, which a rank (a non-negative \<open>int\<close>)
  does not have.
\<close>

lemma seed_factor_inverse: "(3338861555 * 928374 :: c_int) = 2"
  by simp

lemma seed_mult_cancel:
  fixes r1 r2 :: c_int
  assumes "0 \<le>s r1" "0 \<le>s r2" "928374 * r1 = 928374 * r2"
  shows "r1 = r2"
proof -
  have "3338861555 * (928374 * r1) = 3338861555 * (928374 * r2)"
    using assms(3) by simp
  then have "(3338861555 * 928374) * r1 = (3338861555 * 928374) * r2"
    by (simp only: mult.assoc)
  then have eq2: "2 * r1 = 2 * r2"
    by (simp only: seed_factor_inverse)
  have b1: "uint r1 < 2 ^ 31" and b2: "uint r2 < 2 ^ 31"
    using assms(1,2) by (auto dest: nonneg_uint)
  have "uint (2 * r1) = 2 * uint r1" "uint (2 * r2) = 2 * uint r2"
    using b1 b2 by (simp_all add: uint_word_ariths)
  with eq2 have "uint r1 = uint r2" by simp
  then show ?thesis by (rule word_uint_eqI)
qed

text \<open>Up to rank 2313 the seed is the integer \<open>34788 + 928374 * rank\<close>; from 2314 on the
  32-bit product wraps around.\<close>

lemma default_seed_exact:
  fixes r :: c_int
  assumes "0 \<le>s r" "r \<le>s 2313"
  shows "sint (34788 + 928374 * r) = 34788 + 928374 * sint r"
proof -
  have u: "uint r = sint r" using assms(1) by (simp add: nonneg_uint)
  have "sint r \<le> 2313" using assms(2) by (simp add: word_sle_eq)
  moreover have "0 \<le> sint r" using assms(1) by (simp add: word_sle_eq)
  ultimately show ?thesis
    by (simp add: sint_word_ariths signed_take_bit_int_eq_self)
qed

text \<open>
  C10. The default of \<open>random_seed\<close> is \<open>34788 + 928374 * rank\<close> (in the \<open>int\<close> arithmetic of
  the code), and two workers with distinct ranks get distinct default seeds. Ranks are
  non-negative.
\<close>

theorem default_seed_injective:
  assumes "0 \<le>s r1" and "0 \<le>s r2" and "r1 \<noteq> r2"
  shows "field_default (solve_parameters r1) ''random_seed'' =
           Some (Default (Int_val (34788 + 928374 * r1))) \<and>
         field_default (solve_parameters r2) ''random_seed'' =
           Some (Default (Int_val (34788 + 928374 * r2))) \<and>
         field_default (solve_parameters r1) ''random_seed'' \<noteq>
           field_default (solve_parameters r2) ''random_seed''"
proof -
  have "928374 * r1 \<noteq> 928374 * r2"
    using assms seed_mult_cancel by blast
  then show ?thesis
    unfolding solve_parameters_list field_default_def by simp
qed

theorem default_seed_injective_witness:
  "(0 :: c_int) \<le>s 0 \<and> (0 :: c_int) \<le>s 2314 \<and> (0 :: c_int) \<noteq> 2314 \<and>
   field_default (solve_parameters 0) ''random_seed'' = Some (Default (Int_val 34788)) \<and>
   field_default (solve_parameters 2314) ''random_seed'' =
     Some (Default (Int_val (- 2146675072))) \<and>
   field_default (solve_parameters 0) ''random_seed'' \<noteq>
     field_default (solve_parameters 2314) ''random_seed''"
  using default_seed_injective [of 0 2314] by (simp add: word_sle_eq)

subsection \<open>The quadratic terms\<close>

lemma fold_inner_terms:
  "fold (\<lambda>a2 h. f h (q a2)) xs h = foldl f h (map q xs)"
  by (induction xs arbitrary: h) simp_all

lemma fold_outer_terms:
  "fold (\<lambda>a1 h. foldl f h (g a1)) xs h = foldl f h (concat (map g xs))"
  by (induction xs arbitrary: h) simp_all

lemma solve_h_loc_terms:
  "solve_h_loc L G gs b h =
     foldl (op_plus L) h
       [quadratic_term L (G ! i) bn a1 a2.
        (i, (bn, orbitals)) \<leftarrow> enumerate b gs, a1 \<leftarrow> orbitals, a2 \<leftarrow> orbitals]"
proof (induction gs arbitrary: b h)
  case Nil
  show ?case by simp
next
  case (Cons bl rest)
  obtain bn orbitals where bl: "bl = (bn, orbitals)" by (cases bl)
  have inner: "fold (\<lambda>a2 h. op_plus L h (quadratic_term L (G ! b) bn a1 a2)) orbitals =
      (\<lambda>h. foldl (op_plus L) h (map (quadratic_term L (G ! b) bn a1) orbitals))" for a1
    by (rule ext) (rule fold_inner_terms)
  have "fold (\<lambda>a1. fold (\<lambda>a2 h. op_plus L h (quadratic_term L (G ! b) bn a1 a2)) orbitals)
          orbitals h =
        foldl (op_plus L) h
          (concat (map (\<lambda>a1. map (\<lambda>a2. quadratic_term L (G ! b) bn a1 a2) orbitals) orbitals))"
    unfolding inner by (rule fold_outer_terms)
  then show ?case
    by (simp add: bl Cons.IH)
qed

lemma solve_h_loc_eq:
  "solve_h_loc L G gs 0 h = foldl (op_plus L) h (tail_quadratic_terms L G gs)"
  by (simp add: solve_h_loc_terms tail_quadratic_terms_def quadratic_term_def)

subsection \<open>The hybridization loop\<close>

lemma solve_delta_step_eq:
  assumes "b < length D" "b < length T" "b < length G"
  shows "solve_delta_step L ginv b (D, T, G) =
    (D[b := minus_gf L (clef_assign L (D ! b)
              (Plus (Times (Mat (singularity L (ginv ! b) (- 1))) Iw)
                    (Mat (singularity L (ginv ! b) 0)))) (ginv ! b)],
     T[b := inverse_fourier L (T ! b)
              (minus_gf L (clef_assign L (D ! b)
                 (Plus (Times (Mat (singularity L (ginv ! b) (- 1))) Iw)
                       (Mat (singularity L (ginv ! b) 0)))) (ginv ! b))],
     G[b := inverse_gf L (minus_gf L
              (clef_assign L (G ! b) (Plus Iw (Mat (singularity L (ginv ! b) 0))))
              (minus_gf L (clef_assign L (D ! b)
                 (Plus (Times (Mat (singularity L (ginv ! b) (- 1))) Iw)
                       (Mat (singularity L (ginv ! b) 0)))) (ginv ! b)))])"
  using assms by (simp add: solve_delta_step_def Let_def)

lemma solve_delta_step_length:
  "solve_delta_step L ginv b (D, T, G) = (D', T', G') \<Longrightarrow>
     length D' = length D \<and> length T' = length T \<and> length G' = length G"
  by (auto simp: solve_delta_step_def Let_def)

lemma solve_delta_length:
  "solve_delta L ginv gs b (D, T, G) = (D', T', G') \<Longrightarrow>
     length D' = length D \<and> length T' = length T \<and> length G' = length G"
proof (induction gs arbitrary: b D T G)
  case Nil
  then show ?case by simp
next
  case (Cons bl rest)
  obtain D1 T1 G1 where s: "solve_delta_step L ginv b (D, T, G) = (D1, T1, G1)"
    by (cases "solve_delta_step L ginv b (D, T, G)")
  from Cons.prems have "solve_delta L ginv rest (Suc b) (D1, T1, G1) = (D', T', G')"
    by (simp add: s)
  from Cons.IH [OF this] solve_delta_step_length [OF s] show ?case by simp
qed

lemma solve_delta_nth:
  assumes "solve_delta L ginv gs b (D, T, G) = (D', T', G')"
    and "b + length gs \<le> length D" "b + length gs \<le> length T" "b + length gs \<le> length G"
  shows "(i < b \<longrightarrow> D' ! i = D ! i \<and> T' ! i = T ! i \<and> G' ! i = G ! i) \<and>
    (b \<le> i \<and> i < b + length gs \<longrightarrow>
       D' ! i = minus_gf L (clef_assign L (D ! i)
              (Plus (Times (Mat (singularity L (ginv ! i) (- 1))) Iw)
                    (Mat (singularity L (ginv ! i) 0)))) (ginv ! i) \<and>
       T' ! i = inverse_fourier L (T ! i) (D' ! i) \<and>
       G' ! i = inverse_gf L (minus_gf L
              (clef_assign L (G ! i) (Plus Iw (Mat (singularity L (ginv ! i) 0)))) (D' ! i)))"
  using assms
proof (induction gs arbitrary: b D T G)
  case Nil
  then show ?case by auto
next
  case (Cons bl rest)
  obtain D1 T1 G1 where s: "solve_delta_step L ginv b (D, T, G) = (D1, T1, G1)"
    by (cases "solve_delta_step L ginv b (D, T, G)")
  have len: "length D1 = length D" "length T1 = length T" "length G1 = length G"
    using solve_delta_step_length [OF s] by simp_all
  have r: "solve_delta L ginv rest (Suc b) (D1, T1, G1) = (D', T', G')"
    using Cons.prems(1) by (simp add: s)
  have b: "b < length D" "b < length T" "b < length G"
    using Cons.prems by simp_all
  note st = s [unfolded solve_delta_step_eq [OF b]]
  have ih: "(i < Suc b \<longrightarrow> D' ! i = D1 ! i \<and> T' ! i = T1 ! i \<and> G' ! i = G1 ! i) \<and>
    (Suc b \<le> i \<and> i < Suc b + length rest \<longrightarrow>
       D' ! i = minus_gf L (clef_assign L (D1 ! i)
              (Plus (Times (Mat (singularity L (ginv ! i) (- 1))) Iw)
                    (Mat (singularity L (ginv ! i) 0)))) (ginv ! i) \<and>
       T' ! i = inverse_fourier L (T1 ! i) (D' ! i) \<and>
       G' ! i = inverse_gf L (minus_gf L
              (clef_assign L (G1 ! i) (Plus Iw (Mat (singularity L (ginv ! i) 0)))) (D' ! i)))"
    using Cons.IH [OF r] Cons.prems len by simp
  show ?case
  proof (cases "i = b")
    case True
    with ih b st show ?thesis by auto
  next
    case False
    with ih b st show ?thesis by auto
  qed
qed

lemma solve_hybridization_length:
  "solve_hybridization L self = (D, T, G) \<Longrightarrow>
     length D = length (blocks (G0_iw self)) \<and>
     length T = length (blocks (Delta_tau self)) \<and>
     length G = length (blocks (G0_iw self))"
  unfolding solve_hybridization_def
  by (drule solve_delta_length) (simp add: solve_G0_iw_inv_def)

lemma solve_hybridization_nth:
  assumes "wf_solver self" and "b < length (gf_struct self)"
    and "solve_hybridization L self = (D, T, G)"
  shows "D ! b = minus_gf L (clef_assign L (inverse_gf L (blocks (G0_iw self) ! b))
              (Plus (Times (Mat (singularity L (inverse_gf L (blocks (G0_iw self) ! b)) (- 1))) Iw)
                    (Mat (singularity L (inverse_gf L (blocks (G0_iw self) ! b)) 0))))
            (inverse_gf L (blocks (G0_iw self) ! b))"
    and "T ! b = inverse_fourier L (blocks (Delta_tau self) ! b) (D ! b)"
    and "G ! b = inverse_gf L (minus_gf L
              (clef_assign L (blocks (G0_iw self) ! b)
                 (Plus Iw (Mat (singularity L (inverse_gf L (blocks (G0_iw self) ! b)) 0))))
              (D ! b))"
proof -
  have len: "0 + length (gf_struct self) \<le> length (solve_G0_iw_inv L self)"
    "0 + length (gf_struct self) \<le> length (blocks (Delta_tau self))"
    "0 + length (gf_struct self) \<le> length (blocks (G0_iw self))"
    using assms(1) by (simp_all add: wf_solver_def solve_G0_iw_inv_def)
  have run: "solve_delta L (solve_G0_iw_inv L self) (gf_struct self) 0
      (solve_G0_iw_inv L self, blocks (Delta_tau self), blocks (G0_iw self)) = (D, T, G)"
    using assms(3) by (simp add: solve_hybridization_def)
  have nth: "solve_G0_iw_inv L self ! b = inverse_gf L (blocks (G0_iw self) ! b)"
    using assms(1,2) by (simp add: wf_solver_def solve_G0_iw_inv_def)
  note n = solve_delta_nth [OF run len, of b, unfolded nth]
  from n assms(2) show
    "D ! b = minus_gf L (clef_assign L (inverse_gf L (blocks (G0_iw self) ! b))
              (Plus (Times (Mat (singularity L (inverse_gf L (blocks (G0_iw self) ! b)) (- 1))) Iw)
                    (Mat (singularity L (inverse_gf L (blocks (G0_iw self) ! b)) 0))))
            (inverse_gf L (blocks (G0_iw self) ! b))"
    by simp
  from n assms(2) show "T ! b = inverse_fourier L (blocks (Delta_tau self) ! b) (D ! b)"
    by simp
  from n assms(2) show "G ! b = inverse_gf L (minus_gf L
              (clef_assign L (blocks (G0_iw self) ! b)
                 (Plus Iw (Mat (singularity L (inverse_gf L (blocks (G0_iw self) ! b)) 0))))
              (D ! b))"
    by simp
qed

subsection \<open>The registration loops\<close>

lemma fold_add_moves:
  "fold (\<lambda>x q. q\<lparr>moves := moves q @ f x\<rparr>) xs q = q\<lparr>moves := moves q @ concat (map f xs)\<rparr>"
  by (induction xs arbitrary: q) simp_all

lemma fold_add_measures:
  "fold (\<lambda>x q. q\<lparr>measures := measures q @ f x\<rparr>) xs q =
     q\<lparr>measures := measures q @ concat (map f xs)\<rparr>"
  by (induction xs arbitrary: q) simp_all

lemma solve_moves_eq:
  "solve_moves L delta qmc0 =
     qmc0\<lparr>moves := moves qmc0 @ concat (map (\<lambda>block.
        [(move_insert_c_cdag block (word_of_nat (fst (snd (data_shape L (blocks delta ! block))))) False,
          ''Insert Delta_'' @ names delta ! block),
         (move_remove_c_cdag block (word_of_nat (fst (snd (data_shape L (blocks delta ! block))))),
          ''Remove Delta_'' @ names delta ! block)]) [0..<length (names delta)])\<rparr>"
  unfolding solve_moves_def add_move_def Let_def
  using fold_add_moves [where f = "\<lambda>block.
        [(move_insert_c_cdag block (word_of_nat (fst (snd (data_shape L (blocks delta ! block))))) False,
          ''Insert Delta_'' @ names delta ! block),
         (move_remove_c_cdag block (word_of_nat (fst (snd (data_shape L (blocks delta ! block))))),
          ''Remove Delta_'' @ names delta ! block)]"]
  by simp

lemma solve_measure_g_eq:
  "solve_measure_g g qmc0 =
     qmc0\<lparr>measures := measures qmc0 @ map (\<lambda>block.
        (measure_g block (blocks g ! block), ''G measure ('' @ names g ! block @ '')''))
        [0..<length (names g)]\<rparr>"
  unfolding solve_measure_g_def add_measure_def
  using fold_add_measures [where f = "\<lambda>block.
        [(measure_g block (blocks g ! block), ''G measure ('' @ names g ! block @ '')'')]"]
  by (simp add: concat_map_singleton)

lemma solve_measure_pert_eq:
  "solve_measure_pert g qmc0 =
     qmc0\<lparr>measures := measures qmc0 @ map (\<lambda>block.
        (measure_perturbation_hist block (''histo_pert_order_'' @ names g ! block @ ''.dat''),
         ''Perturbation order ('' @ names g ! block @ '')''))
        [0..<length (names g)]\<rparr>"
  unfolding solve_measure_pert_def add_measure_def
  using fold_add_measures [where f = "\<lambda>block.
        [(measure_perturbation_hist block (''histo_pert_order_'' @ names g ! block @ ''.dat''),
         ''Perturbation order ('' @ names g ! block @ '')'')]"]
  by (simp add: concat_map_singleton)


subsection \<open>The result of solve\<close>

text \<open>The fields of the result of \<open>solve\<close>, one by one.\<close>

lemma solve_run_sign: "run_sign (solve L self h p q u) = 1"
  by (simp add: solve_def solve_hybridization_def solve_G0_iw_inv_def Let_def split: prod.splits)

lemma solve_run_max_time: "run_max_time (solve L self h p q u) = max_time p"
  by (simp add: solve_def solve_hybridization_def solve_G0_iw_inv_def Let_def split: prod.splits)

lemma solve_Delta_tau:
  "Delta_tau (run_solver (solve L self h p q u)) =
     (Delta_tau self)\<lparr>blocks := fst (snd (solve_hybridization L self))\<rparr>"
  by (simp add: solve_def solve_hybridization_def solve_G0_iw_inv_def Let_def split: prod.splits)


lemma solve_sosp:
  "sosp (run_solver (solve L self h p q u)) =
     (if u then Sorted_spaces_qn (solve_h_loc L (blocks (G0_iw self)) (gf_struct self) 0 h) q
                 (fst (solve_fops L (gf_struct self) 0 ([], Map.empty)))
      else Sorted_spaces (solve_h_loc L (blocks (G0_iw self)) (gf_struct self) 0 h)
                 (fst (solve_fops L (gf_struct self) 0 ([], Map.empty))))"
  by (simp add: solve_def solve_hybridization_def solve_G0_iw_inv_def Let_def split: prod.splits)

lemma solve_run_data:
  "run_data (solve L self h p q u) =
     qmc_data (beta self) p (sosp (run_solver (solve L self h p q u)))
       (snd (solve_fops L (gf_struct self) 0 ([], Map.empty)))
       (Delta_tau (run_solver (solve L self h p q u)))"
  by (simp add: solve_def solve_hybridization_def solve_G0_iw_inv_def Let_def split: prod.splits)

lemma solve_run_qmc:
  "run_qmc (solve L self h p q u) =
     (let qmc = solve_moves L (Delta_tau (run_solver (solve L self h p q u))) (mc_generic p);
          qmc = (if measure_g_tau p then solve_measure_g (G_tau self) qmc else qmc)
      in if measure_pert_order p then solve_measure_pert (G_tau self) qmc else qmc)"
  by (simp add: solve_def solve_hybridization_def solve_G0_iw_inv_def Let_def split: prod.splits)

lemma solve_G_tau:
  "G_tau (run_solver (solve L self h p q u)) =
     (G_tau self)\<lparr>blocks := mc_start_collect L (run_data (solve L self h p q u))
        (run_qmc (solve L self h p q u)) 1 (max_time p) (blocks (G_tau self))\<rparr>"
  by (simp add: solve_def solve_hybridization_def solve_G0_iw_inv_def Let_def split: prod.splits)

lemma solve_frame:
  "beta (run_solver (solve L self h p q u)) = beta self"
  "gf_struct (run_solver (solve L self h p q u)) = gf_struct self"
  by (simp_all add: solve_def solve_hybridization_def solve_G0_iw_inv_def Let_def
      split: prod.splits)

subsection \<open>Counting the registered moves and measures\<close>

lemma insert_moves_of_registered:
  "insert_moves_of block (concat (map (\<lambda>b.
       [(move_insert_c_cdag b (s b) False, nm b), (move_remove_c_cdag b (s b), nm' b)]) [0..<n])) =
     (if block < n then [(move_insert_c_cdag block (s block) False, nm block)] else [])"
  by (induction n) (auto simp: insert_moves_of_def)

lemma remove_moves_of_registered:
  "remove_moves_of block (concat (map (\<lambda>b.
       [(move_insert_c_cdag b (s b) False, nm b), (move_remove_c_cdag b (s b), nm' b)]) [0..<n])) =
     (if block < n then [(move_remove_c_cdag block (s block), nm' block)] else [])"
  by (induction n) (auto simp: remove_moves_of_def)

lemma g_measures_of_g:
  "g_measures_of block (map (\<lambda>b. (measure_g b (g b), nm b)) [0..<n]) =
     (if block < n then [(measure_g block (g block), nm block)] else [])"
  by (induction n) (auto simp: g_measures_of_def)

lemma g_measures_of_pert:
  "g_measures_of block (map (\<lambda>b. (measure_perturbation_hist b (f b), nm b)) [0..<n]) = []"
  by (induction n) (auto simp: g_measures_of_def)

lemma pert_measures_of_pert:
  "pert_measures_of block (map (\<lambda>b. (measure_perturbation_hist b (f b), nm b)) [0..<n]) =
     (if block < n then [(measure_perturbation_hist block (f block), nm block)] else [])"
  by (induction n) (auto simp: pert_measures_of_def)

lemma pert_measures_of_g:
  "pert_measures_of block (map (\<lambda>b. (measure_g b (g b), nm b)) [0..<n]) = []"
  by (induction n) (auto simp: pert_measures_of_def)

lemma measures_of_append:
  "g_measures_of block (xs @ ys) = g_measures_of block xs @ g_measures_of block ys"
  "pert_measures_of block (xs @ ys) = pert_measures_of block xs @ pert_measures_of block ys"
  by (simp_all add: g_measures_of_def pert_measures_of_def)

lemma measures_of_Nil:
  "g_measures_of block [] = []" "pert_measures_of block [] = []"
  by (simp_all add: g_measures_of_def pert_measures_of_def)

lemma solve_measures:
  "measures (run_qmc (solve L self h p q u)) =
     (if measure_g_tau p
      then map (\<lambda>block. (measure_g block (blocks (G_tau self) ! block),
                  ''G measure ('' @ names (G_tau self) ! block @ '')''))
             [0..<length (names (G_tau self))]
      else []) @
     (if measure_pert_order p
      then map (\<lambda>block. (measure_perturbation_hist block
                    (''histo_pert_order_'' @ names (G_tau self) ! block @ ''.dat''),
                  ''Perturbation order ('' @ names (G_tau self) ! block @ '')''))
             [0..<length (names (G_tau self))]
      else [])"
  by (simp add: solve_run_qmc Let_def solve_measure_g_eq solve_measure_pert_eq solve_moves_eq
      mc_generic_def)

lemma solve_moves_registered:
  "moves (run_qmc (solve L self h p q u)) =
     concat (map (\<lambda>block.
        [(move_insert_c_cdag block
            (word_of_nat (fst (snd (data_shape L
               (blocks (Delta_tau (run_solver (solve L self h p q u))) ! block))))) False,
          ''Insert Delta_'' @ names (Delta_tau self) ! block),
         (move_remove_c_cdag block
            (word_of_nat (fst (snd (data_shape L
               (blocks (Delta_tau (run_solver (solve L self h p q u))) ! block))))),
          ''Remove Delta_'' @ names (Delta_tau self) ! block)])
       [0..<length (names (Delta_tau self))])"
  by (simp add: solve_run_qmc Let_def solve_measure_g_eq solve_measure_pert_eq solve_moves_eq
      mc_generic_def solve_Delta_tau)

subsection \<open>The running example\<close>

lemma sym_triqs_simps:
  "gf_imfreq sym_triqs = Sym_imfreq"
  "gf_imtime sym_triqs = Sym_imtime"
  "inverse_gf sym_triqs = Sym_inverse"
  "minus_gf sym_triqs = Sym_minus"
  "singularity sym_triqs = (\<lambda>g k a1 a2. of_int k)"
  "clef_assign sym_triqs = Sym_assign"
  "inverse_fourier sym_triqs = Sym_inverse_fourier"
  "data_shape sym_triqs = sym_shape"
  "c_dag sym_triqs = Sym_c_dag"
  "c_op sym_triqs = Sym_c"
  "op_plus sym_triqs = Sym_plus"
  "op_times sym_triqs = Sym_times"
  "scalar_times sym_triqs = Sym_scalar"
  by (simp_all add: sym_triqs_def)

lemma example_solver_simps:
  "beta example_solver = 10"
  "gf_struct example_solver = [(''down'', [0]), (''up'', [0])]"
  "names (G0_iw example_solver) = [''down'', ''up'']"
  "blocks (G0_iw example_solver) = [Sym_weiss ''down'', Sym_weiss ''up'']"
  "names (G_tau example_solver) = [''down'', ''up'']"
  "blocks (G_tau example_solver) =
     [Sym_imtime 10 Fermion 200 half_bins (1, 1), Sym_imtime 10 Fermion 200 half_bins (1, 1)]"
  "names (Delta_tau example_solver) = [''down'', ''up'']"
  "blocks (Delta_tau example_solver) =
     [Sym_imtime 10 Fermion 200 half_bins (1, 1), Sym_imtime 10 Fermion 200 half_bins (1, 1)]"
  by (simp_all add: example_solver_def example_gf_struct_def make_block_gf_def)

lemma example_gf_struct_simps:
  "length example_gf_struct = 2" "example_gf_struct ! Suc 0 = (''up'', [0])"
  by (simp_all add: example_gf_struct_def)

lemma example_solver_wf: "wf_solver example_solver"
  by (simp add: wf_solver_def example_solver_simps)

lemma example_params_simps:
  "measure_g_tau example_params" "measure_pert_order example_params"
  "max_time example_params = - 1"
  by (simp_all add: example_params_def)

lemma example_solver_constructed:
  "ctqmc sym_triqs 10 example_gf_struct 50 200 =
     Inr (example_solver\<lparr>G0_iw := make_block_gf [''down'', ''up'']
            [Sym_imfreq 10 Fermion 50 (1, 1), Sym_imfreq 10 Fermion 50 (1, 1)]\<rparr>)"
  by (simp add: ctqmc_def word_sle_eq example_gf_struct_def example_solver_def sym_triqs_simps
      Let_def)

lemma example_solver_assigned:
  "assign_G0_iw [Sym_weiss ''down'', Sym_weiss ''up'']
     (example_solver\<lparr>G0_iw := make_block_gf [''down'', ''up'']
            [Sym_imfreq 10 Fermion 50 (1, 1), Sym_imfreq 10 Fermion 50 (1, 1)]\<rparr>) =
   example_solver"
  by (simp add: assign_G0_iw_def example_solver_def make_block_gf_def)

lemma example_hybridization:
  "solve_hybridization sym_triqs example_solver =
     ([Sym_minus
         (Sym_assign (Sym_inverse (Sym_weiss ''down''))
            (Plus (Times (Mat (\<lambda>a1 a2. - 1)) Iw) (Mat (\<lambda>a1 a2. 0))))
         (Sym_inverse (Sym_weiss ''down'')),
       Sym_minus
         (Sym_assign (Sym_inverse (Sym_weiss ''up''))
            (Plus (Times (Mat (\<lambda>a1 a2. - 1)) Iw) (Mat (\<lambda>a1 a2. 0))))
         (Sym_inverse (Sym_weiss ''up''))],
      [Sym_inverse_fourier (Sym_imtime 10 Fermion 200 half_bins (1, 1))
         (Sym_minus
            (Sym_assign (Sym_inverse (Sym_weiss ''down''))
               (Plus (Times (Mat (\<lambda>a1 a2. - 1)) Iw) (Mat (\<lambda>a1 a2. 0))))
            (Sym_inverse (Sym_weiss ''down''))),
       Sym_inverse_fourier (Sym_imtime 10 Fermion 200 half_bins (1, 1))
         (Sym_minus
            (Sym_assign (Sym_inverse (Sym_weiss ''up''))
               (Plus (Times (Mat (\<lambda>a1 a2. - 1)) Iw) (Mat (\<lambda>a1 a2. 0))))
            (Sym_inverse (Sym_weiss ''up'')))],
      [Sym_inverse
         (Sym_minus
            (Sym_assign (Sym_weiss ''down'') (Plus Iw (Mat (\<lambda>a1 a2. 0))))
            (Sym_minus
               (Sym_assign (Sym_inverse (Sym_weiss ''down''))
                  (Plus (Times (Mat (\<lambda>a1 a2. - 1)) Iw) (Mat (\<lambda>a1 a2. 0))))
               (Sym_inverse (Sym_weiss ''down'')))),
       Sym_inverse
         (Sym_minus
            (Sym_assign (Sym_weiss ''up'') (Plus Iw (Mat (\<lambda>a1 a2. 0))))
            (Sym_minus
               (Sym_assign (Sym_inverse (Sym_weiss ''up''))
                  (Plus (Times (Mat (\<lambda>a1 a2. - 1)) Iw) (Mat (\<lambda>a1 a2. 0))))
               (Sym_inverse (Sym_weiss ''up''))))])"
  by (simp add: solve_hybridization_def solve_G0_iw_inv_def solve_delta_step_def Let_def
      example_solver_simps sym_triqs_simps)

subsection \<open>The arithmetic example\<close>

lemma tail_inverse_weiss: "tail_inverse [0, 0, 1, 1 / 2] = [1, - (1 / 2)]"
  by (simp add: tail_inverse_def ps_inverse_def)


lemma arith_triqs_simps:
  "gf_imfreq arith_triqs = arith_imfreq"
  "gf_imtime arith_triqs = Sym_imtime"
  "inverse_gf arith_triqs = arith_inverse"
  "minus_gf arith_triqs = arith_minus"
  "singularity arith_triqs = arith_singularity"
  "clef_assign arith_triqs = arith_assign"
  "inverse_fourier arith_triqs = Sym_inverse_fourier"
  "data_shape arith_triqs = sym_shape"
  by (simp_all add: arith_triqs_def)

lemma arith_solver_simps:
  "gf_struct arith_solver = [(''up'', [0])]"
  "names (G0_iw arith_solver) = [''up'']"
  "blocks (G0_iw arith_solver) = [arith_weiss]"
  "blocks (Delta_tau arith_solver) = [Sym_imtime 10 Fermion 5 half_bins (1, 1)]"
  "names (Delta_tau arith_solver) = [''up'']"
  "blocks (G_tau arith_solver) = [Sym_imtime 10 Fermion 5 half_bins (1, 1)]"
  "names (G_tau arith_solver) = [''up'']"
  by (simp_all add: arith_solver_def make_block_gf_def)


lemma arith_imfreq_example:
  "arith_imfreq 10 Fermion 2 (1, 1) =
     \<lparr>agf_mesh = [\<i> * of_real (pi / 10), \<i> * of_real (3 * pi / 10)],
      agf_data = [0, 0], agf_tail = [0, 0, 0, 0]\<rparr>"
proof -
  have u: "unat (2 :: c_int) = Suc (Suc 0)" by simp
  have "[0..<Suc (Suc 0)] = [0, Suc 0]" by (simp add: upt_rec)
  then show ?thesis
    unfolding arith_imfreq_def u by simp
qed

lemma arith_solver_constructed:
  "ctqmc arith_triqs 10 [(''up'', [0])] 2 5 =
     Inr (arith_solver\<lparr>G0_iw := make_block_gf [''up''] [arith_imfreq 10 Fermion 2 (1, 1)]\<rparr>)"
  by (simp add: ctqmc_def word_sle_eq arith_solver_def arith_triqs_simps Let_def)

lemma arith_inverse_weiss:
  "arith_inverse arith_weiss =
     \<lparr>agf_mesh = [\<i> * of_real (pi / 10), \<i> * of_real (3 * pi / 10)],
      agf_data = [\<i> * of_real (pi / 10) - 1 / 2, \<i> * of_real (3 * pi / 10) - 1 / 2],
      agf_tail = [1, - (1 / 2)]\<rparr>"
  by (simp add: arith_inverse_def arith_weiss_def tail_inverse_weiss)

lemma arith_Delta_iw:
  "fst (solve_hybridization arith_triqs arith_solver) =
     [\<lparr>agf_mesh = [\<i> * of_real (pi / 10), \<i> * of_real (3 * pi / 10)],
       agf_data = [0, 0], agf_tail = [0, 0]\<rparr>]"
  by (simp add: solve_hybridization_def solve_G0_iw_inv_def solve_delta_step_def Let_def
      arith_solver_simps arith_triqs_simps arith_inverse_weiss arith_minus_def arith_assign_def
      arith_singularity_def tail_times_def numeral_2_eq_2 numeral_3_eq_3)



subsection \<open>The claims about solve\<close>

text \<open>
  C2. For every block \<open>b\<close>, \<open>solve\<close> computes
  \<open>Delta_iw[b] = tail(-1)*iw + tail(0) - inverse(G0_iw[b])\<close>, where \<open>tail(-1)\<close> and \<open>tail(0)\<close>
  are tail coefficients of \<open>inverse(G0_iw[b])\<close>, and sets \<open>Delta_tau[b]\<close> to the inverse
  Fourier transform of that \<open>Delta_iw[b]\<close>. The affine expression is assigned into the copy of
  \<open>inverse(G0_iw[b])\<close> that \<open>Delta_iw[b]\<close> starts as, and \<open>G0_iw[b]\<close> is the Weiss field the
  caller supplied.
\<close>

theorem solve_hybridization_function:
  assumes "wf_solver self" and "b < length (gf_struct self)"
  shows "fst (solve_hybridization L self) ! b =
           minus_gf L
             (clef_assign L (inverse_gf L (blocks (G0_iw self) ! b))
                (Plus (Times (Mat (singularity L (inverse_gf L (blocks (G0_iw self) ! b)) (- 1))) Iw)
                      (Mat (singularity L (inverse_gf L (blocks (G0_iw self) ! b)) 0))))
             (inverse_gf L (blocks (G0_iw self) ! b)) \<and>
         blocks (Delta_tau (run_solver (solve L self h p q u))) ! b =
           inverse_fourier L (blocks (Delta_tau self) ! b) (fst (solve_hybridization L self) ! b)"
proof -
  obtain D T G where r: "solve_hybridization L self = (D, T, G)"
    by (cases "solve_hybridization L self")
  from solve_hybridization_nth(1,2) [OF assms r] show ?thesis
    by (simp add: solve_Delta_tau r)
qed

theorem solve_hybridization_function_witness:
  "wf_solver example_solver \<and> (0 :: nat) < length (gf_struct example_solver) \<and>
   fst (solve_hybridization sym_triqs example_solver) ! 0 =
     Sym_minus
       (Sym_assign (Sym_inverse (Sym_weiss ''down''))
          (Plus (Times (Mat (\<lambda>a1 a2. - 1)) Iw) (Mat (\<lambda>a1 a2. 0))))
       (Sym_inverse (Sym_weiss ''down'')) \<and>
   blocks (Delta_tau (run_solver
       (solve sym_triqs example_solver Sym_h example_params [] False))) ! 0 =
     Sym_inverse_fourier (Sym_imtime 10 Fermion 200 half_bins (1, 1))
       (Sym_minus
          (Sym_assign (Sym_inverse (Sym_weiss ''down''))
             (Plus (Times (Mat (\<lambda>a1 a2. - 1)) Iw) (Mat (\<lambda>a1 a2. 0))))
          (Sym_inverse (Sym_weiss ''down'')))"
  using solve_hybridization_function [where self = example_solver and b = 0 and L = sym_triqs
      and h = Sym_h and p = example_params and q = "[]" and u = False]
  by (simp add: example_solver_wf example_solver_simps sym_triqs_simps)

text \<open>
  C3. The Hamiltonian \<open>solve\<close> builds the atomic state space from is the supplied \<open>h_loc\<close>
  plus, for every block and every ordered pair \<open>(a1, a2)\<close> of its orbital indices, the term
  \<open>Re(tail coefficient 2 of G0_iw[b] at (a1, a2)) * c_dag(bl, a1) * c(bl, a2)\<close>, added in
  the order of the blocks and of the indices; \<open>G0_iw\<close> is the Weiss field as supplied.
\<close>

theorem solve_augments_h_loc:
  "sosp (run_solver (solve L self h_loc p q u)) =
     (if u
      then Sorted_spaces_qn
             (foldl (op_plus L) h_loc
                (tail_quadratic_terms L (blocks (G0_iw self)) (gf_struct self)))
             q (fst (solve_fops L (gf_struct self) 0 ([], Map.empty)))
      else Sorted_spaces
             (foldl (op_plus L) h_loc
                (tail_quadratic_terms L (blocks (G0_iw self)) (gf_struct self)))
             (fst (solve_fops L (gf_struct self) 0 ([], Map.empty))))"
  by (simp add: solve_sosp solve_h_loc_eq)

theorem solve_augments_h_loc_witness:
  "sosp (run_solver (solve sym_triqs example_solver Sym_h example_params [] False)) =
     Sorted_spaces
       (Sym_plus
          (Sym_plus Sym_h (Sym_times (Sym_scalar 2 (Sym_c_dag ''down'' 0)) (Sym_c ''down'' 0)))
          (Sym_times (Sym_scalar 2 (Sym_c_dag ''up'' 0)) (Sym_c ''up'' 0)))
       [(''down'', 0), (''up'', 0)]"
  using solve_augments_h_loc [where self = example_solver and L = sym_triqs
      and h_loc = Sym_h and p = example_params and q = "[]" and u = False]
  by (simp add: example_solver_simps sym_triqs_simps tail_quadratic_terms_def Let_def)

text \<open>
  C4. \<open>solve\<close> starts the Monte Carlo run from the empty configuration with sign 1: what it
  leaves in \<open>G_tau\<close> is the result of \<open>qmc.start(1.0, clock_callback(max_time))\<close> and
  \<open>collect_results\<close> on the driver that the registration loops have filled and on the data
  built by the constructor of \<open>qmc_data\<close>, whose configuration is empty: one empty sequence
  per block of \<open>Delta_tau\<close>, no operator insertion at all.
\<close>

theorem solve_starts_empty:
  "G_tau (run_solver (solve L self h p q u)) =
     (G_tau self)\<lparr>blocks :=
        mc_start_collect L (run_data (solve L self h p q u)) (run_qmc (solve L self h p q u))
          1 (max_time p) (blocks (G_tau self))\<rparr> \<and>
   run_data (solve L self h p q u) =
     qmc_data (beta self) p (sosp (run_solver (solve L self h p q u)))
       (snd (solve_fops L (gf_struct self) 0 ([], Map.empty)))
       (Delta_tau (run_solver (solve L self h p q u))) \<and>
   run_qmc (solve L self h p q u) =
     (let qmc = solve_moves L (Delta_tau (run_solver (solve L self h p q u))) (mc_generic p);
          qmc = (if measure_g_tau p then solve_measure_g (G_tau self) qmc else qmc)
      in if measure_pert_order p then solve_measure_pert (G_tau self) qmc else qmc) \<and>
   config (run_data (solve L self h p q u)) =
     replicate (length (blocks (Delta_tau self))) [] \<and>
   concat (config (run_data (solve L self h p q u))) = []"
proof -
  obtain D T G where r: "solve_hybridization L self = (D, T, G)"
    by (cases "solve_hybridization L self")
  have c: "config (run_data (solve L self h p q u)) =
      replicate (length (blocks (Delta_tau self))) []"
    using solve_hybridization_length [OF r]
    by (simp add: solve_run_data qmc_data_def solve_Delta_tau r map_replicate_const)
  have d: "run_data (solve L self h p q u) =
     qmc_data (beta self) p (sosp (run_solver (solve L self h p q u)))
       (snd (solve_fops L (gf_struct self) 0 ([], Map.empty)))
       (Delta_tau (run_solver (solve L self h p q u)))"
    by (rule solve_run_data)
  show ?thesis
    using c d solve_G_tau [of L self h p q u] solve_run_qmc [of L self h p q u]
    by simp
qed

theorem solve_starts_empty_witness:
  "blocks (G_tau (run_solver
       (solve sym_triqs example_solver Sym_h example_params [] False))) =
     [Sym_measured 1 (- 1) [[], []] (Sym_imtime 10 Fermion 200 half_bins (1, 1)),
      Sym_measured 1 (- 1) [[], []] (Sym_imtime 10 Fermion 200 half_bins (1, 1))] \<and>
   config (run_data (solve sym_triqs example_solver Sym_h example_params [] False)) =
     [[], []]"
proof -
  note t = solve_starts_empty [where self = example_solver and L = sym_triqs
      and h = Sym_h and p = example_params and q = "[]" and u = False]
  have c: "config (run_data (solve sym_triqs example_solver Sym_h example_params [] False)) =
      [[], []]"
    using t [THEN conjunct2, THEN conjunct2, THEN conjunct2, THEN conjunct1]
    by (simp add: example_solver_simps numeral_2_eq_2)
  have m: "g_measures_of 0 (measures (run_qmc
        (solve sym_triqs example_solver Sym_h example_params [] False))) \<noteq> []"
    "g_measures_of (Suc 0) (measures (run_qmc
        (solve sym_triqs example_solver Sym_h example_params [] False))) \<noteq> []"
    by (simp_all add: solve_measures example_solver_simps example_params_simps
        g_measures_of_def upt_rec)
  have "blocks (G_tau (run_solver
       (solve sym_triqs example_solver Sym_h example_params [] False))) =
     sym_mc_start_collect
       (run_data (solve sym_triqs example_solver Sym_h example_params [] False))
       (run_qmc (solve sym_triqs example_solver Sym_h example_params [] False))
       1 (- 1) (blocks (G_tau example_solver))"
    using t [THEN conjunct1]
    by (simp add: sym_triqs_def example_params_simps example_solver_simps)
  then show ?thesis
    using c m by (simp add: sym_mc_start_collect_def example_solver_simps)
qed

text \<open>
  C5. For every block, \<open>solve\<close> registers exactly one Green's-function measurement if
  \<open>measure_g_tau\<close> is true and none otherwise, and exactly one perturbation-order
  measurement if \<open>measure_pert_order\<close> is true and none otherwise. Both kinds go into the
  measure list of the one driver the run is started on, and nothing else does.
\<close>

theorem solve_measurements:
  assumes "wf_solver self" and "block < length (gf_struct self)"
  shows "g_measures_of block (measures (run_qmc (solve L self h p q u))) =
           (if measure_g_tau p
            then [(measure_g block (blocks (G_tau self) ! block),
                   ''G measure ('' @ names (G_tau self) ! block @ '')'')]
            else []) \<and>
         pert_measures_of block (measures (run_qmc (solve L self h p q u))) =
           (if measure_pert_order p
            then [(measure_perturbation_hist block
                     (''histo_pert_order_'' @ names (G_tau self) ! block @ ''.dat''),
                   ''Perturbation order ('' @ names (G_tau self) ! block @ '')'')]
            else []) \<and>
         length (measures (run_qmc (solve L self h p q u))) =
           (if measure_g_tau p then length (gf_struct self) else 0) +
           (if measure_pert_order p then length (gf_struct self) else 0)"
proof -
  have n: "length (names (G_tau self)) = length (gf_struct self)"
    using assms(1) by (simp add: wf_solver_def)
  show ?thesis
    unfolding solve_measures measures_of_append n
    using assms(2)
    by (simp add: g_measures_of_g g_measures_of_pert pert_measures_of_pert pert_measures_of_g
        measures_of_Nil)
qed

theorem solve_measurements_witness:
  "wf_solver example_solver \<and> (1 :: nat) < length (gf_struct example_solver) \<and>
   g_measures_of 1 (measures (run_qmc
       (solve sym_triqs example_solver Sym_h example_params [] False))) =
     [(measure_g 1 (Sym_imtime 10 Fermion 200 half_bins (1, 1)), ''G measure (up)'')] \<and>
   pert_measures_of 1 (measures (run_qmc
       (solve sym_triqs example_solver Sym_h example_params [] False))) =
     [(measure_perturbation_hist 1 ''histo_pert_order_up.dat'', ''Perturbation order (up)'')] \<and>
   length (measures (run_qmc
       (solve sym_triqs example_solver Sym_h example_params [] False))) = 4"
  using solve_measurements [where self = example_solver and block = 1 and L = sym_triqs
      and h = Sym_h and p = example_params and q = "[]" and u = False]
  by (simp add: example_solver_wf example_solver_simps example_params_simps)

text \<open>
  C7. After a successful construction, \<open>G0_iw\<close>, \<open>G_tau\<close> and \<open>Delta_tau\<close> have one block per
  entry of \<open>gf_struct\<close>, in its order and under its names; the block of an entry with \<open>n\<close>
  orbitals is built with target shape \<open>(n, n)\<close>, on \<open>n_iw\<close> Matsubara frequencies for \<open>G0_iw\<close>
  and on \<open>n_tau\<close> time points for \<open>G_tau\<close> and \<open>Delta_tau\<close>, at \<open>beta\<close>. Once the caller has
  filled the Weiss field, \<open>solve\<close> registers exactly one insert move and one remove move for
  every block, and no other move.
\<close>

theorem ctqmc_structure_and_moves:
  assumes "ctqmc L b gs n_iw n_tau = Inr self" and "block < length gs"
  shows "names (G0_iw self) = map fst gs \<and>
         names (G_tau self) = map fst gs \<and>
         names (Delta_tau self) = map fst gs \<and>
         blocks (G0_iw self) =
           map (\<lambda>(bn, orbitals). gf_imfreq L b Fermion n_iw
                  (word_of_nat (length orbitals), word_of_nat (length orbitals))) gs \<and>
         blocks (G_tau self) =
           map (\<lambda>(bn, orbitals). gf_imtime L b Fermion n_tau half_bins
                  (word_of_nat (length orbitals), word_of_nat (length orbitals))) gs \<and>
         blocks (Delta_tau self) =
           map (\<lambda>(bn, orbitals). gf_imtime L b Fermion n_tau half_bins
                  (word_of_nat (length orbitals), word_of_nat (length orbitals))) gs \<and>
         insert_moves_of block (moves (run_qmc (solve L (assign_G0_iw g0 self) h p q u))) =
           [(move_insert_c_cdag block
               (word_of_nat (fst (snd (data_shape L
                  (blocks (Delta_tau (run_solver (solve L (assign_G0_iw g0 self) h p q u)))
                     ! block))))) False,
             ''Insert Delta_'' @ fst (gs ! block))] \<and>
         remove_moves_of block (moves (run_qmc (solve L (assign_G0_iw g0 self) h p q u))) =
           [(move_remove_c_cdag block
               (word_of_nat (fst (snd (data_shape L
                  (blocks (Delta_tau (run_solver (solve L (assign_G0_iw g0 self) h p q u)))
                     ! block))))),
             ''Remove Delta_'' @ fst (gs ! block))] \<and>
         length (moves (run_qmc (solve L (assign_G0_iw g0 self) h p q u))) = 2 * length gs"
proof -
  note s = ctqmc_Inr [OF assms(1)]
  have fields: "names (G0_iw self) = map fst gs" "names (G_tau self) = map fst gs"
    "names (Delta_tau self) = map fst gs"
    "blocks (G0_iw self) =
           map (\<lambda>(bn, orbitals). gf_imfreq L b Fermion n_iw
                  (word_of_nat (length orbitals), word_of_nat (length orbitals))) gs"
    "blocks (G_tau self) =
           map (\<lambda>(bn, orbitals). gf_imtime L b Fermion n_tau half_bins
                  (word_of_nat (length orbitals), word_of_nat (length orbitals))) gs"
    "blocks (Delta_tau self) =
           map (\<lambda>(bn, orbitals). gf_imtime L b Fermion n_tau half_bins
                  (word_of_nat (length orbitals), word_of_nat (length orbitals))) gs"
    using s by (auto simp: make_block_gf_def split_def)
  have d: "Delta_tau (assign_G0_iw g0 self) = Delta_tau self"
    by (simp add: assign_G0_iw_def)
  have nm: "names (Delta_tau self) ! block = fst (gs ! block)"
    using assms(2) by (simp add: fields)
  have n: "length (names (Delta_tau self)) = length gs"
    by (simp add: fields)
  have len: "length (moves (run_qmc (solve L (assign_G0_iw g0 self) h p q u))) = 2 * length gs"
    unfolding solve_moves_registered d n
    by (simp add: length_concat comp_def sum_list_triv)
  show ?thesis
    unfolding fields
    using assms(2) len
    by (simp add: solve_moves_registered d n nm insert_moves_of_registered
        remove_moves_of_registered)
qed

theorem ctqmc_structure_and_moves_witness:
  "ctqmc sym_triqs 10 example_gf_struct 50 200 =
     Inr (example_solver\<lparr>G0_iw := make_block_gf [''down'', ''up'']
            [Sym_imfreq 10 Fermion 50 (1, 1), Sym_imfreq 10 Fermion 50 (1, 1)]\<rparr>) \<and>
   (1 :: nat) < length example_gf_struct \<and>
   insert_moves_of 1 (moves (run_qmc
       (solve sym_triqs example_solver Sym_h example_params [] False))) =
     [(move_insert_c_cdag 1 1 False, ''Insert Delta_up'')] \<and>
   remove_moves_of 1 (moves (run_qmc
       (solve sym_triqs example_solver Sym_h example_params [] False))) =
     [(move_remove_c_cdag 1 1, ''Remove Delta_up'')] \<and>
   length (moves (run_qmc
       (solve sym_triqs example_solver Sym_h example_params [] False))) = 4"
  using ctqmc_structure_and_moves [OF example_solver_constructed,
      where block = 1 and ?g0.0 = "[Sym_weiss ''down'', Sym_weiss ''up'']"
      and h = Sym_h and p = example_params and q = "[]" and u = False]
  by (simp add: example_solver_constructed example_solver_assigned example_gf_struct_simps
      example_solver_wf example_solver_simps sym_triqs_simps solve_Delta_tau
      example_hybridization)




text \<open>
  C9. With \<open>use_quantum_numbers\<close> false, \<open>solve\<close> does not depend on \<open>quantum_numbers\<close>: the
  solver object it leaves and the run it starts are the same for any two vectors.
\<close>

theorem solve_ignores_quantum_numbers:
  "solve L self h p q1 False = solve L self h p q2 False"
  by (simp add: solve_def)

end
